theory Spec2Isabelle
  imports Complex_Main "HOL-Library.AList"
begin

section \<open>Python values, exceptions and strings\<close>

text \<open>
  Both \<^verbatim>\<open>fast-api/main.py\<close> and \<^verbatim>\<open>linear-regression/predict_survival.py\<close> define the
  same function \<^verbatim>\<open>predict_survival\<close>, line for line; one model covers both.

  A Python \<^verbatim>\<open>str\<close> is modelled as a \<^typ>\<open>string\<close> holding its UTF-8 bytes, a Python or
  numpy float as a \<^typ>\<open>real\<close> (the finite values; comparisons of floats are exact, the
  arithmetic is taken without rounding error), a Python \<^verbatim>\<open>int\<close> as an \<^typ>\<open>int\<close>.
  An exception is a value carrying the text that \<^verbatim>\<open>str(e)\<close> returns.
\<close>

datatype py_exception =
    ValueError string
  | KeyError string
  | OtherException string

fun exception_str :: "py_exception \<Rightarrow> string" where
  "exception_str (ValueError m) = m"
| "exception_str (KeyError m) = m"
| "exception_str (OtherException m) = m"

datatype pyval = PInt int | PFloat real | PStr string

fun is_numeric :: "pyval \<Rightarrow> bool" where
  "is_numeric (PInt _) = True"
| "is_numeric (PFloat _) = True"
| "is_numeric (PStr _) = False"

definition lowercase_letters :: string where
  "lowercase_letters = ''abcdefghijklmnopqrstuvwxyz''"

definition uppercase_letters :: string where
  "uppercase_letters = ''ABCDEFGHIJKLMNOPQRSTUVWXYZ''"

text \<open>
  \<^verbatim>\<open>str.upper\<close>, \<^verbatim>\<open>str.lower\<close> and \<^verbatim>\<open>str.capitalize\<close> on the ASCII letters; every
  other byte is left as it is.
\<close>

definition upper_char :: "char \<Rightarrow> char" where
  "upper_char c =
     (case map_of (zip lowercase_letters uppercase_letters) c of Some u \<Rightarrow> u | None \<Rightarrow> c)"

definition lower_char :: "char \<Rightarrow> char" where
  "lower_char c =
     (case map_of (zip uppercase_letters lowercase_letters) c of Some l \<Rightarrow> l | None \<Rightarrow> c)"

definition upper :: "string \<Rightarrow> string" where
  "upper v = map upper_char v"

definition lower :: "string \<Rightarrow> string" where
  "lower v = map lower_char v"

fun capitalize :: "string \<Rightarrow> string" where
  "capitalize [] = []"
| "capitalize (c # cs) = upper_char c # map lower_char cs"

text \<open>\<^verbatim>\<open>str(n)\<close> of an integer: its decimal digits, with a minus sign below zero.\<close>

fun str_nat :: "nat \<Rightarrow> string" where
  "str_nat n =
     (if n < 10 then [''0123456789'' ! n]
      else str_nat (n div 10) @ [''0123456789'' ! (n mod 10)])"

declare str_nat.simps [simp del]

definition str_int :: "int \<Rightarrow> string" where
  "str_int i = (if i < 0 then CHR ''-'' # str_nat (nat (- i)) else str_nat (nat i))"

text \<open>
  The \<^verbatim>\<open>repr\<close> of a list of plain strings, as an f-string prints it:
  \<^verbatim>\<open>['I', 'II', 'III']\<close>.
\<close>

fun join :: "string \<Rightarrow> string list \<Rightarrow> string" where
  "join sep [] = []"
| "join sep [x] = x"
| "join sep (x # y # ys) = x @ sep @ join sep (y # ys)"

definition repr_str :: "string \<Rightarrow> string" where
  "repr_str s = [CHR 0x27] @ s @ [CHR 0x27]"

definition repr_list :: "string list \<Rightarrow> string" where
  "repr_list xs = ''['' @ join '', '' (map repr_str xs) @ '']''"

section \<open>Risk stratification and the prediction report\<close>

text \<open>
  \<^verbatim>\<open>round(x, ndigits)\<close> of a float: the nearest multiple of \<open>10\<^sup>-\<^sup>n\<close>, a tie going to
  the even neighbour.
\<close>

definition rint :: "real \<Rightarrow> real" where
  "rint x =
     (let f = \<lfloor>x\<rfloor>; r = x - of_int f
      in if r < 1 / 2 then of_int f
         else if 1 / 2 < r then of_int (f + 1)
         else if even f then of_int f
         else of_int (f + 1))"

definition py_round :: "real \<Rightarrow> nat \<Rightarrow> real" where
  "py_round x ndigits = rint (x * 10 ^ ndigits) / 10 ^ ndigits"

record PredictionResult =
  predicted_days :: real
  predicted_months :: real
  predicted_years :: real
  risk_category :: string
  risk_color :: string
  recommendation :: string

text \<open>
  The four colour strings of the source are single emoji (U+1F534, U+1F7E0, U+1F7E1,
  U+1F7E2: large red, orange, yellow and green circle), here as their UTF-8 bytes.
\<close>

definition red_circle :: string where
  "red_circle = [CHR 0xF0, CHR 0x9F, CHR 0x94, CHR 0xB4]"

definition orange_circle :: string where
  "orange_circle = [CHR 0xF0, CHR 0x9F, CHR 0x9F, CHR 0xA0]"

definition yellow_circle :: string where
  "yellow_circle = [CHR 0xF0, CHR 0x9F, CHR 0x9F, CHR 0xA1]"

definition green_circle :: string where
  "green_circle = [CHR 0xF0, CHR 0x9F, CHR 0x9F, CHR 0xA2]"

text \<open>
  The \<^verbatim>\<open>if\<close>/\<^verbatim>\<open>elif\<close> chain under \<^verbatim>\<open># Risk stratification\<close>: the triple
  \<^verbatim>\<open>(risk, color, action)\<close> it assigns.
\<close>

definition risk_stratification :: "real \<Rightarrow> string \<times> string \<times> string" where
  "risk_stratification days =
     (if days < 180 then
        (''HIGH RISK'', red_circle,
         ''Immediate intensive care and close monitoring required'')
      else if days < 365 then
        (''ELEVATED RISK'', orange_circle,
         ''Enhanced monitoring and aggressive treatment recommended'')
      else if days < 730 then
        (''MODERATE RISK'', yellow_circle,
         ''Standard treatment protocol with regular follow-ups'')
      else
        (''LOWER RISK'', green_circle,
         ''Standard care with routine monitoring''))"

text \<open>
  Everything \<^verbatim>\<open>predict_survival\<close> does after \<^verbatim>\<open>model.predict\<close> has returned: the
  months and years, the stratification of the raw estimate, and the rounded report.
\<close>

definition report :: "real \<Rightarrow> PredictionResult" where
  "report days =
     (let months = days / 30;
          years = days / 365;
          (risk, color, action) = risk_stratification days
      in \<lparr>predicted_days = py_round days 0,
          predicted_months = py_round months 1,
          predicted_years = py_round years 2,
          risk_category = risk,
          risk_color = color,
          recommendation = action\<rparr>)"

section \<open>The artifact bundle and the data frame\<close>

text \<open>
  A fitted \<^verbatim>\<open>sklearn.preprocessing.LabelEncoder\<close> is its array \<^verbatim>\<open>classes_\<close>;
  \<^verbatim>\<open>transform\<close> returns the position of a label in it and raises \<^verbatim>\<open>ValueError\<close> on a
  label that is not there.
\<close>

type_synonym LabelEncoder = "string list"

fun index_of :: "string \<Rightarrow> string list \<Rightarrow> nat option" where
  "index_of y [] = None"
| "index_of y (c # cs) = (if y = c then Some 0 else map_option Suc (index_of y cs))"

definition transform :: "LabelEncoder \<Rightarrow> string \<Rightarrow> py_exception + int" where
  "transform le y =
     (case index_of y le of
        None \<Rightarrow> Inl (ValueError (''y contains previously unseen labels: '' @ repr_list [y]))
      | Some i \<Rightarrow> Inr (int i))"

text \<open>
  A one-row \<^verbatim>\<open>DataFrame\<close>: its columns in order, each with the cell of the row. A
  patient dictionary has the same shape, its keys in insertion order.
\<close>

type_synonym DataFrame = "(string \<times> pyval) list"

text \<open>
  The four objects loaded at start-up. The regressor and the scaler are opaque: a
  function that returns or raises. \<^verbatim>\<open>model\<close> stands for \<^verbatim>\<open>model.predict(...)[0]\<close>,
  \<^verbatim>\<open>features\<close> for \<^verbatim>\<open>metadata['features']\<close>.
\<close>

record ArtifactBundle =
  model :: "real list \<Rightarrow> py_exception + real"
  scaler :: "DataFrame \<Rightarrow> py_exception + real list"
  label_encoders :: "(string \<times> LabelEncoder) list"
  features :: "string list"

text \<open>
  \<^verbatim>\<open>df[col].astype(str)\<close> on the one cell of a column. What \<^verbatim>\<open>str\<close> prints for a
  float is a parameter.
\<close>

fun astype_str :: "(real \<Rightarrow> string) \<Rightarrow> pyval \<Rightarrow> string" where
  "astype_str float_str (PInt i) = str_int i"
| "astype_str float_str (PFloat x) = float_str x"
| "astype_str float_str (PStr s) = s"

text \<open>
  The loop \<^verbatim>\<open>for feature in metadata['features']\<close>: a column the frame lacks is added
  at the end, holding the integer 0.
\<close>

fun ensure_features :: "string list \<Rightarrow> DataFrame \<Rightarrow> DataFrame" where
  "ensure_features [] df = df"
| "ensure_features (feature # rest) df =
     ensure_features rest
       (if feature \<notin> set (map fst df) then AList.update feature (PInt 0) df else df)"

text \<open>
  The loop \<^verbatim>\<open>for col, le in label_encoders.items()\<close>: a column of the frame is replaced
  by its code; \<^verbatim>\<open>except ValueError\<close> replaces it by 0, any other exception leaves the
  function.
\<close>

fun encode_categorical ::
  "(real \<Rightarrow> string) \<Rightarrow> (string \<times> LabelEncoder) list \<Rightarrow> DataFrame \<Rightarrow> py_exception + DataFrame"
where
  "encode_categorical float_str [] df = Inr df"
| "encode_categorical float_str ((col, le) # rest) df =
     (case map_of df col of
        None \<Rightarrow> encode_categorical float_str rest df
      | Some v \<Rightarrow>
          (case transform le (astype_str float_str v) of
             Inr code \<Rightarrow> encode_categorical float_str rest (AList.update col (PInt code) df)
           | Inl e \<Rightarrow>
               (case e of
                  ValueError _ \<Rightarrow> encode_categorical float_str rest (AList.update col (PInt 0) df)
                | _ \<Rightarrow> Inl e)))"

text \<open>
  \<^verbatim>\<open>df[metadata['features']]\<close>: the listed columns in the listed order; a name that is
  not a column raises \<^verbatim>\<open>KeyError\<close>.
\<close>

fun select_columns :: "string list \<Rightarrow> DataFrame \<Rightarrow> py_exception + DataFrame" where
  "select_columns [] df = Inr []"
| "select_columns (name # rest) df =
     (case map_of df name of
        None \<Rightarrow> Inl (KeyError name)
      | Some v \<Rightarrow>
          (case select_columns rest df of
             Inl e \<Rightarrow> Inl e
           | Inr cols \<Rightarrow> Inr ((name, v) # cols)))"

text \<open>
  The first half of \<^verbatim>\<open>predict_survival\<close>, up to \<^verbatim>\<open># Reorder columns\<close>: the frame
  handed to the scaler.
\<close>

definition align_features ::
  "(real \<Rightarrow> string) \<Rightarrow> ArtifactBundle \<Rightarrow> DataFrame \<Rightarrow> py_exception + DataFrame"
where
  "align_features float_str art patient_data =
     (let df = ensure_features (features art) patient_data
      in case encode_categorical float_str (label_encoders art) df of
           Inl e \<Rightarrow> Inl e
         | Inr df \<Rightarrow> select_columns (features art) df)"

definition predict_survival ::
  "(real \<Rightarrow> string) \<Rightarrow> ArtifactBundle \<Rightarrow> DataFrame \<Rightarrow> py_exception + PredictionResult"
where
  "predict_survival float_str art patient_data =
     (case align_features float_str art patient_data of
        Inl e \<Rightarrow> Inl e
      | Inr df \<Rightarrow>
          (case scaler art df of
             Inl e \<Rightarrow> Inl e
           | Inr df_scaled \<Rightarrow>
               (case model art df_scaled of
                  Inl e \<Rightarrow> Inl e
                | Inr days \<Rightarrow> Inr (report days))))"

section \<open>Request validation and the endpoint\<close>

text \<open>
  The fields of \<^verbatim>\<open>PatientData\<close>, already of their declared types: the model starts
  where every field is present and an \<^verbatim>\<open>int\<close>, a \<^verbatim>\<open>float\<close> or a \<^verbatim>\<open>str\<close> as declared.
\<close>

record PatientData =
  Age :: int
  Gender :: string
  Protein1 :: real
  Protein2 :: real
  Protein3 :: real
  Protein4 :: real
  Tumour_Stage :: string
  Histology :: string
  ER_status :: string
  PR_status :: string
  HER2_status :: string
  Surgery_type :: string

definition validate_gender :: "string \<Rightarrow> py_exception + string" where
  "validate_gender v =
     (let allowed = [''MALE'', ''FEMALE'', ''Male'', ''Female'', ''male'', ''female'']
      in if upper v \<notin> set (map upper allowed)
         then Inl (ValueError (''Gender must be one of: '' @ repr_list allowed))
         else Inr (upper v))"

definition validate_tumour_stage :: "string \<Rightarrow> py_exception + string" where
  "validate_tumour_stage v =
     (let allowed = [''I'', ''II'', ''III'']
      in if upper v \<notin> set allowed
         then Inl (ValueError (''Tumour_Stage must be one of: '' @ repr_list allowed))
         else Inr (upper v))"

definition validate_status :: "string \<Rightarrow> py_exception + string" where
  "validate_status v =
     (let allowed = [''Positive'', ''Negative'', ''positive'',
                     ''negative'', ''POSITIVE'', ''NEGATIVE'']
      in if v \<notin> set allowed
         then Inl (ValueError (''Status must be one of: '' @ repr_list allowed))
         else Inr (capitalize v))"

text \<open>
  What the validation of a request reports for one field: the bound of \<^verbatim>\<open>Field(ge=..., le=...)\<close>
  that the number breaks, or the text of the \<^verbatim>\<open>ValueError\<close> of the field's validator.
  Each report is filed under the name the field has in the request,
  \<^verbatim>\<open>ER status\<close> for \<^verbatim>\<open>ER_status\<close>.
\<close>

datatype validation_issue =
    greater_than_equal real
  | less_than_equal real
  | value_error string

type_synonym validation_errors = "(string \<times> validation_issue) list"

definition check_bounds :: "string \<Rightarrow> real \<Rightarrow> real \<Rightarrow> real \<Rightarrow> validation_errors" where
  "check_bounds loc ge le v =
     (if v < ge then [(loc, greater_than_equal ge)]
      else if le < v then [(loc, less_than_equal le)]
      else [])"

definition run_validator ::
  "string \<Rightarrow> (string \<Rightarrow> py_exception + string) \<Rightarrow> string \<Rightarrow> validation_errors \<times> string"
where
  "run_validator loc validator v =
     (case validator v of
        Inl e \<Rightarrow> ([(loc, value_error (exception_str e))], v)
      | Inr v' \<Rightarrow> ([], v'))"

text \<open>
  Building a \<^verbatim>\<open>PatientData\<close> from a request body: every field is checked in the order
  of the class, all reports are collected, and the object is built from what the
  validators returned when there is no report. \<^verbatim>\<open>Histology\<close> and \<^verbatim>\<open>Surgery_type\<close> are
  declared \<^verbatim>\<open>str = Field(...)\<close> with no bound and no validator.
\<close>

definition validate_PatientData :: "PatientData \<Rightarrow> validation_errors + PatientData" where
  "validate_PatientData body =
     (let (e_gender, gender) = run_validator ''Gender'' validate_gender (Gender body);
          (e_stage, stage) = run_validator ''Tumour_Stage'' validate_tumour_stage (Tumour_Stage body);
          (e_er, er) = run_validator ''ER status'' validate_status (ER_status body);
          (e_pr, pr) = run_validator ''PR status'' validate_status (PR_status body);
          (e_her2, her2) = run_validator ''HER2 status'' validate_status (HER2_status body);
          errors =
            check_bounds ''Age'' 18 100 (of_int (Age body)) @ e_gender @
            check_bounds ''Protein1'' (- 5) 5 (Protein1 body) @
            check_bounds ''Protein2'' (- 5) 5 (Protein2 body) @
            check_bounds ''Protein3'' (- 5) 5 (Protein3 body) @
            check_bounds ''Protein4'' (- 5) 5 (Protein4 body) @
            e_stage @ e_er @ e_pr @ e_her2
      in if errors = []
         then Inr (body\<lparr>Gender := gender, Tumour_Stage := stage,
                        ER_status := er, PR_status := pr, HER2_status := her2\<rparr>)
         else Inl errors)"

text \<open>\<^verbatim>\<open>model_dump(by_alias=False)\<close>: the fields under their Python names, in class order.\<close>

definition model_dump :: "PatientData \<Rightarrow> DataFrame" where
  "model_dump p =
     [(''Age'', PInt (Age p)), (''Gender'', PStr (Gender p)),
      (''Protein1'', PFloat (Protein1 p)), (''Protein2'', PFloat (Protein2 p)),
      (''Protein3'', PFloat (Protein3 p)), (''Protein4'', PFloat (Protein4 p)),
      (''Tumour_Stage'', PStr (Tumour_Stage p)), (''Histology'', PStr (Histology p)),
      (''ER_status'', PStr (ER_status p)), (''PR_status'', PStr (PR_status p)),
      (''HER2_status'', PStr (HER2_status p)), (''Surgery_type'', PStr (Surgery_type p))]"

text \<open>\<^verbatim>\<open>data[new] = data.pop(old)\<close>; \<^verbatim>\<open>pop\<close> raises \<^verbatim>\<open>KeyError\<close> on a missing key.\<close>

definition move_key :: "string \<Rightarrow> string \<Rightarrow> DataFrame \<Rightarrow> py_exception + DataFrame" where
  "move_key new old data =
     (case map_of data old of
        None \<Rightarrow> Inl (KeyError (repr_str old))
      | Some v \<Rightarrow> Inr (AList.update new v (AList.delete old data)))"

definition to_model_dict :: "PatientData \<Rightarrow> py_exception + DataFrame" where
  "to_model_dict p =
     (case move_key ''ER status'' ''ER_status'' (model_dump p) of
        Inl e \<Rightarrow> Inl e
      | Inr data \<Rightarrow>
          (case move_key ''PR status'' ''PR_status'' data of
             Inl e \<Rightarrow> Inl e
           | Inr data \<Rightarrow> move_key ''HER2 status'' ''HER2_status'' data))"

record HTTPException =
  status_code :: nat
  detail :: string

text \<open>
  The body of the \<^verbatim>\<open>/predict\<close> handler. \<^verbatim>\<open>PredictionResponse\<close> has the fields of the
  dictionary that \<^verbatim>\<open>predict_survival\<close> returns, with the same types, so building it
  from the dictionary changes nothing.
\<close>

definition predict ::
  "(real \<Rightarrow> string) \<Rightarrow> ArtifactBundle \<Rightarrow> PatientData \<Rightarrow> HTTPException + PredictionResult"
where
  "predict float_str art patient_data =
     (case (case to_model_dict patient_data of
              Inl e \<Rightarrow> Inl e
            | Inr patient_dict \<Rightarrow> predict_survival float_str art patient_dict) of
        Inl e \<Rightarrow> Inl \<lparr>status_code = 500, detail = ''Prediction error: '' @ exception_str e\<rparr>
      | Inr result \<Rightarrow> Inr result)"

text \<open>
  A request to \<^verbatim>\<open>POST /predict\<close>: the body is validated into a \<^verbatim>\<open>PatientData\<close> before
  the handler runs, and a body that fails is answered with the reports.
\<close>

datatype response =
    Prediction PredictionResult
  | RequestValidationError validation_errors
  | ServerError HTTPException

definition post_predict ::
  "(real \<Rightarrow> string) \<Rightarrow> ArtifactBundle \<Rightarrow> PatientData \<Rightarrow> response"
where
  "post_predict float_str art body =
     (case validate_PatientData body of
        Inl errors \<Rightarrow> RequestValidationError errors
      | Inr patient_data \<Rightarrow>
          (case predict float_str art patient_data of
             Inl e \<Rightarrow> ServerError e
           | Inr result \<Rightarrow> Prediction result))"

section \<open>Example artifacts and patients\<close>

text \<open>
  The evaluations below need artifacts to run on. These follow the two kinds of object the
  scripts load: a standard scaler, which takes the numbers of a frame of the width it
  was fitted on and raises \<^verbatim>\<open>ValueError\<close> otherwise, and a linear regressor.
\<close>

fun to_float :: "pyval \<Rightarrow> py_exception + real" where
  "to_float (PInt i) = Inr (of_int i)"
| "to_float (PFloat x) = Inr x"
| "to_float (PStr s) = Inl (ValueError (''could not convert string to float: '' @ repr_str s))"

fun to_floats :: "pyval list \<Rightarrow> py_exception + real list" where
  "to_floats [] = Inr []"
| "to_floats (v # vs) =
     (case to_float v of
        Inl e \<Rightarrow> Inl e
      | Inr x \<Rightarrow> (case to_floats vs of Inl e \<Rightarrow> Inl e | Inr xs \<Rightarrow> Inr (x # xs)))"

definition standard_scaler :: "real list \<Rightarrow> real list \<Rightarrow> DataFrame \<Rightarrow> py_exception + real list" where
  "standard_scaler mean scale df =
     (if length df \<noteq> length mean
      then Inl (ValueError (''X has '' @ str_nat (length df) @
                  '' features, but StandardScaler is expecting '' @
                  str_nat (length mean) @ '' features as input.''))
      else case to_floats (map snd df) of
             Inl e \<Rightarrow> Inl e
           | Inr xs \<Rightarrow> Inr (map (\<lambda>(x, m, s). (x - m) / s) (zip xs (zip mean scale))))"

definition linear_regression :: "real list \<Rightarrow> real \<Rightarrow> real list \<Rightarrow> py_exception + real" where
  "linear_regression coef intercept xs =
     Inr (sum_list (map (\<lambda>(c, x). c * x) (zip coef xs)) + intercept)"

definition example_features :: "string list" where
  "example_features =
     [''Age'', ''Gender'', ''Protein1'', ''Protein2'', ''Protein3'', ''Protein4'',
      ''Tumour_Stage'', ''Histology'', ''ER status'', ''PR status'', ''HER2 status'',
      ''Surgery_type'']"

definition example_encoders :: "(string \<times> LabelEncoder) list" where
  "example_encoders =
     [(''Gender'', [''FEMALE'', ''MALE'']),
      (''Tumour_Stage'', [''I'', ''II'', ''III'']),
      (''Histology'', [''Infiltrating Ductal Carcinoma'', ''Infiltrating Lobular Carcinoma'',
                       ''Mucinous Carcinoma'']),
      (''ER status'', [''Negative'', ''Positive'']),
      (''PR status'', [''Negative'', ''Positive'']),
      (''HER2 status'', [''Negative'', ''Positive'']),
      (''Surgery_type'', [''Lumpectomy'', ''Modified Radical Mastectomy'', ''Other'',
                          ''Simple Mastectomy''])]"

definition example_bundle :: ArtifactBundle where
  "example_bundle =
     \<lparr>model = linear_regression [- 10, 0, 20, 0, 0, 0, - 50, 0, 0, 0, 0, 0] 1000,
      scaler = standard_scaler [0, 0, 0, 0, 0, 0, 0, 0, 0, 0, 0, 0]
                 [1, 1, 1, 1, 1, 1, 1, 1, 1, 1, 1, 1],
      label_encoders = example_encoders,
      features = example_features\<rparr>"

text \<open>The same bundle with a regressor of a lower intercept.\<close>

definition low_intercept_bundle :: ArtifactBundle where
  "low_intercept_bundle =
     example_bundle\<lparr>model := linear_regression [- 10, 0, 20, 0, 0, 0, - 50, 0, 0, 0, 0, 0] 700\<rparr>"

text \<open>The same bundle with a scaler fitted on eleven columns.\<close>

definition mismatched_bundle :: ArtifactBundle where
  "mismatched_bundle =
     example_bundle\<lparr>scaler := standard_scaler [0, 0, 0, 0, 0, 0, 0, 0, 0, 0, 0]
                       [1, 1, 1, 1, 1, 1, 1, 1, 1, 1, 1]\<rparr>"

text \<open>
  \<^verbatim>\<open>str\<close> of a float that holds a whole number. No encoder of the examples is keyed by
  a float column, so the evaluations never call it.
\<close>

definition whole_float_str :: "real \<Rightarrow> string" where
  "whole_float_str x = str_int \<lfloor>x\<rfloor> @ ''.0''"

text \<open>\<^verbatim>\<open>patient1\<close> of \<^verbatim>\<open>predict_survival.py\<close>, as a dictionary and as a request body.\<close>

definition patient1 :: DataFrame where
  "patient1 =
     [(''Age'', PInt 68), (''Gender'', PStr ''FEMALE''),
      (''Protein1'', PFloat (- 0.5)), (''Protein2'', PFloat 0.8),
      (''Protein3'', PFloat 0.2), (''Protein4'', PFloat (- 0.3)),
      (''Tumour_Stage'', PStr ''III''),
      (''Histology'', PStr ''Infiltrating Ductal Carcinoma''),
      (''ER status'', PStr ''Negative''), (''PR status'', PStr ''Negative''),
      (''HER2 status'', PStr ''Positive''), (''Surgery_type'', PStr ''Mastectomy'')]"

text \<open>A row that lacks the column \<^verbatim>\<open>Protein4\<close>, as a CSV file of the batch mode can hold.\<close>

definition patient_without_protein4 :: DataFrame where
  "patient_without_protein4 = AList.delete ''Protein4'' patient1"

definition patient1_body :: PatientData where
  "patient1_body =
     \<lparr>Age = 68, Gender = ''FEMALE'', Protein1 = - 0.5, Protein2 = 0.8, Protein3 = 0.2,
      Protein4 = - 0.3, Tumour_Stage = ''III'',
      Histology = ''Infiltrating Ductal Carcinoma'', ER_status = ''Negative'',
      PR_status = ''Negative'', HER2_status = ''Positive'', Surgery_type = ''Mastectomy''\<rparr>"

section \<open>Auxiliary definitions\<close>

text \<open>The cell an encoder leaves in its column: the code, or 0 after \<^verbatim>\<open>except ValueError\<close>.\<close>

definition encoded_cell :: "(real \<Rightarrow> string) \<Rightarrow> LabelEncoder \<Rightarrow> pyval \<Rightarrow> pyval" where
  "encoded_cell float_str le v =
     (case transform le (astype_str float_str v) of Inr code \<Rightarrow> PInt code | Inl _ \<Rightarrow> PInt 0)"

text \<open>
  The name the specification gives to each of the four emoji: the colour of the circle.
\<close>

definition indicator_tag :: "string \<Rightarrow> string" where
  "indicator_tag color =
     (if color = red_circle then ''red''
      else if color = orange_circle then ''orange''
      else if color = yellow_circle then ''yellow''
      else if color = green_circle then ''green''
      else [])"

text \<open>The list \<^verbatim>\<open>allowed\<close> of \<^verbatim>\<open>validate_status\<close>.\<close>

definition status_spellings :: "string list" where
  "status_spellings =
     [''Positive'', ''Negative'', ''positive'', ''negative'', ''POSITIVE'', ''NEGATIVE'']"

text \<open>A case-insensitive match, as the specification words it.\<close>

definition matches_ignoring_case :: "string \<Rightarrow> string \<Rightarrow> bool" where
  "matches_ignoring_case v w = (lower v = lower w)"

text \<open>
  The two halves of \<^verbatim>\<open>validate_PatientData\<close>: the reports it collects and the object
  it builds.
\<close>

definition request_errors :: "PatientData \<Rightarrow> validation_errors" where
  "request_errors body =
     check_bounds ''Age'' 18 100 (of_int (Age body)) @
     fst (run_validator ''Gender'' validate_gender (Gender body)) @
     check_bounds ''Protein1'' (- 5) 5 (Protein1 body) @
     check_bounds ''Protein2'' (- 5) 5 (Protein2 body) @
     check_bounds ''Protein3'' (- 5) 5 (Protein3 body) @
     check_bounds ''Protein4'' (- 5) 5 (Protein4 body) @
     fst (run_validator ''Tumour_Stage'' validate_tumour_stage (Tumour_Stage body)) @
     fst (run_validator ''ER status'' validate_status (ER_status body)) @
     fst (run_validator ''PR status'' validate_status (PR_status body)) @
     fst (run_validator ''HER2 status'' validate_status (HER2_status body))"

definition normalized :: "PatientData \<Rightarrow> PatientData" where
  "normalized body =
     body\<lparr>Gender := snd (run_validator ''Gender'' validate_gender (Gender body)),
          Tumour_Stage := snd (run_validator ''Tumour_Stage'' validate_tumour_stage (Tumour_Stage body)),
          ER_status := snd (run_validator ''ER status'' validate_status (ER_status body)),
          PR_status := snd (run_validator ''PR status'' validate_status (PR_status body)),
          HER2_status := snd (run_validator ''HER2 status'' validate_status (HER2_status body))\<rparr>"

text \<open>The fields of a request body that break their declared bound or enumeration.\<close>

definition offending_fields :: "PatientData \<Rightarrow> string set" where
  "offending_fields body =
     (if Age body < 18 \<or> 100 < Age body then {''Age''} else {}) \<union>
     (if upper (Gender body) \<notin> {''MALE'', ''FEMALE''} then {''Gender''} else {}) \<union>
     (if Protein1 body < - 5 \<or> 5 < Protein1 body then {''Protein1''} else {}) \<union>
     (if Protein2 body < - 5 \<or> 5 < Protein2 body then {''Protein2''} else {}) \<union>
     (if Protein3 body < - 5 \<or> 5 < Protein3 body then {''Protein3''} else {}) \<union>
     (if Protein4 body < - 5 \<or> 5 < Protein4 body then {''Protein4''} else {}) \<union>
     (if upper (Tumour_Stage body) \<notin> {''I'', ''II'', ''III''} then {''Tumour_Stage''} else {}) \<union>
     (if ER_status body \<notin> set status_spellings then {''ER status''} else {}) \<union>
     (if PR_status body \<notin> set status_spellings then {''PR status''} else {}) \<union>
     (if HER2_status body \<notin> set status_spellings then {''HER2 status''} else {})"

section \<open>Lemmas about the alignment\<close>

lemma transform_raises: "transform le y = Inl e \<Longrightarrow> \<exists>m. e = ValueError m"
  by (auto simp: transform_def split: option.splits)

lemma keys_update_present: "k \<in> set (map fst al) \<Longrightarrow> map fst (AList.update k v al) = map fst al"
  by (induction al) auto

lemma ensure_features_keys: "set (map fst (ensure_features fs df)) = set (map fst df) \<union> set fs"
  by (induction fs arbitrary: df) (auto simp: dom_update)

lemma map_of_Some_key: "map_of df f = Some x \<Longrightarrow> f \<in> fst ` set df"
  by (metis map_of_eq_None_iff option.distinct(1))

lemma map_of_ensure_features:
  "map_of (ensure_features fs df) c =
     (case map_of df c of Some v \<Rightarrow> Some v | None \<Rightarrow> if c \<in> set fs then Some (PInt 0) else None)"
proof (induction fs arbitrary: df)
  case Nil
  then show ?case by (simp split: option.splits)
next
  case (Cons f fs)
  then show ?case
    by (auto simp: update_conv' map_of_eq_None_iff split: option.splits dest: map_of_Some_key)
qed

lemma encode_categorical_returns:
  "\<exists>df'. encode_categorical fs encs df = Inr df' \<and> map fst df' = map fst df"
proof (induction encs arbitrary: df)
  case Nil
  then show ?case by simp
next
  case (Cons a encs)
  obtain col le where a: "a = (col, le)" by (cases a)
  show ?case
  proof (cases "map_of df col")
    case None
    then show ?thesis using Cons a by simp
  next
    case (Some v)
    then have k: "col \<in> set (map fst df)" by (metis map_of_eq_None_iff option.distinct(1) set_map)
    show ?thesis
    proof (cases "transform le (astype_str fs v)")
      case (Inl e)
      then obtain m where "e = ValueError m" using transform_raises by blast
      then show ?thesis using Cons [of "AList.update col (PInt 0) df"] a Some Inl k
        by (simp add: keys_update_present)
    next
      case (Inr code)
      then show ?thesis using Cons [of "AList.update col (PInt code) df"] a Some k
        by (simp add: keys_update_present)
    qed
  qed
qed

lemma select_columns_returns:
  "set fs \<subseteq> set (map fst df) \<Longrightarrow>
   \<exists>v. select_columns fs df = Inr v \<and> map fst v = fs \<and> (\<forall>p \<in> set v. map_of df (fst p) = Some (snd p))"
proof (induction fs)
  case Nil
  then show ?case by simp
next
  case (Cons f fs)
  then obtain x where "map_of df f = Some x"
    by (metis list.set_intros(1) map_of_eq_None_iff not_Some_eq set_map subsetD)
  then show ?case using Cons by auto
qed

lemma encode_categorical_cell:
  "encode_categorical fs encs df = Inr df' \<Longrightarrow> map_of df c = Some v \<Longrightarrow>
   \<exists>x. map_of df' c = Some x \<and> (if c \<in> set (map fst encs) then \<exists>k. x = PInt k else x = v)"
proof (induction encs arbitrary: df v)
  case Nil
  then show ?case by simp
next
  case (Cons a encs)
  obtain col le where a: "a = (col, le)" by (cases a)
  show ?case
  proof (cases "map_of df col")
    case None
    then have "col \<noteq> c" using Cons.prems(2) by auto
    moreover have "encode_categorical fs encs df = Inr df'" using Cons.prems(1) a None by simp
    ultimately show ?thesis using Cons.IH [OF _ Cons.prems(2)] a by auto
  next
    case (Some w)
    define code where "code = (case transform le (astype_str fs w) of Inr k \<Rightarrow> k | Inl _ \<Rightarrow> 0)"
    have step: "encode_categorical fs encs (AList.update col (PInt code) df) = Inr df'"
      using Cons.prems(1) a Some
      by (auto simp: code_def split: sum.splits py_exception.splits)
    show ?thesis
    proof (cases "c = col")
      case True
      then have "map_of (AList.update col (PInt code) df) c = Some (PInt code)"
        by (simp add: update_conv')
      from Cons.IH [OF step this] show ?thesis using True a by (auto split: if_splits)
    next
      case False
      then have "map_of (AList.update col (PInt code) df) c = Some v"
        using Cons.prems(2) by (simp add: update_conv')
      from Cons.IH [OF step this] show ?thesis using False a by auto
    qed
  qed
qed

lemma encode_categorical_lookup:
  "encode_categorical fs encs df = Inr df' \<Longrightarrow> distinct (map fst encs) \<Longrightarrow>
   map_of df' c =
     (case map_of encs c of
        None \<Rightarrow> map_of df c
      | Some le \<Rightarrow> map_option (encoded_cell fs le) (map_of df c))"
proof (induction encs arbitrary: df)
  case Nil
  then show ?case by simp
next
  case (Cons a encs)
  obtain col le where a: "a = (col, le)" by (cases a)
  have d: "distinct (map fst encs)" and n: "map_of encs col = None"
    using Cons.prems(2) a by (auto simp: map_of_eq_None_iff)
  show ?case
  proof (cases "map_of df col")
    case None
    then have "encode_categorical fs encs df = Inr df'" using Cons.prems(1) a by simp
    from Cons.IH [OF this d] show ?thesis using a n None by (auto split: option.splits)
  next
    case (Some w)
    define code where "code = (case transform le (astype_str fs w) of Inr k \<Rightarrow> k | Inl _ \<Rightarrow> 0)"
    have step: "encode_categorical fs encs (AList.update col (PInt code) df) = Inr df'"
      using Cons.prems(1) a Some
      by (auto simp: code_def split: sum.splits py_exception.splits)
    have cell: "encoded_cell fs le w = PInt code"
      by (simp add: encoded_cell_def code_def split: sum.splits)
    from Cons.IH [OF step d] show ?thesis using a n Some cell
      by (auto simp: update_conv' split: option.splits)
  qed
qed

lemma encode_categorical_default:
  assumes "encode_categorical fs encs df = Inr df'"
    and "map_of df f = Some (PInt 0)"
    and "\<forall>le k. (f, le) \<in> set encs \<longrightarrow> transform le ''0'' = Inr k \<longrightarrow> k = 0"
  shows "map_of df' f = Some (PInt 0)"
  using assms
proof (induction encs arbitrary: df)
  case Nil
  then show ?case by simp
next
  case (Cons a encs)
  obtain col le where a: "a = (col, le)" by (cases a)
  have rest: "\<forall>le k. (f, le) \<in> set encs \<longrightarrow> transform le ''0'' = Inr k \<longrightarrow> k = 0"
    using Cons.prems(3) by simp
  show ?case
  proof (cases "map_of df col")
    case None
    then have "encode_categorical fs encs df = Inr df'" using Cons.prems(1) a by simp
    from Cons.IH [OF this Cons.prems(2) rest] show ?thesis .
  next
    case (Some w)
    define code where "code = (case transform le (astype_str fs w) of Inr k \<Rightarrow> k | Inl _ \<Rightarrow> 0)"
    have step: "encode_categorical fs encs (AList.update col (PInt code) df) = Inr df'"
      using Cons.prems(1) a Some
      by (auto simp: code_def split: sum.splits py_exception.splits)
    have "map_of (AList.update col (PInt code) df) f = Some (PInt 0)"
    proof (cases "col = f")
      case True
      then have "w = PInt 0" using Some Cons.prems(2) by simp
      then have "astype_str fs w = ''0''" by (simp add: str_int_def str_nat.simps)
      moreover have "(f, le) \<in> set (a # encs)" using a True by simp
      ultimately have "code = 0" using Cons.prems(3)
        by (auto simp: code_def split: sum.splits)
      then show ?thesis using True by (simp add: update_conv')
    next
      case False
      then show ?thesis using Cons.prems(2) by (simp add: update_conv')
    qed
    from Cons.IH [OF step this rest] show ?thesis .
  qed
qed

lemma align_features_returns:
  "\<exists>v df'. align_features fs art pd = Inr v \<and> map fst v = features art \<and>
     encode_categorical fs (label_encoders art) (ensure_features (features art) pd) = Inr df' \<and>
     map fst df' = map fst (ensure_features (features art) pd) \<and>
     (\<forall>p \<in> set v. map_of df' (fst p) = Some (snd p))"
proof -
  obtain df' where e: "encode_categorical fs (label_encoders art) (ensure_features (features art) pd) = Inr df'"
    and k: "map fst df' = map fst (ensure_features (features art) pd)"
    using encode_categorical_returns by blast
  have "set (features art) \<subseteq> set (map fst df')"
    using k ensure_features_keys [of "features art" pd] by auto
  from select_columns_returns [OF this] e k show ?thesis
    by (auto simp: align_features_def)
qed

lemma aligned_cell:
  assumes "map fst v = fs" and "i < length fs"
    and "\<forall>p \<in> set v. map_of df (fst p) = Some (snd p)"
    and "map_of df (fs ! i) = Some x"
  shows "v ! i = (fs ! i, x)"
proof -
  have l: "i < length v" using assms(1,2) by auto
  then have "fst (v ! i) = fs ! i" using assms(1) by (metis nth_map)
  moreover have "map_of df (fst (v ! i)) = Some (snd (v ! i))"
    using assms(3) l by simp
  ultimately show ?thesis using assms(4) by (simp add: prod_eq_iff)
qed

lemma predict_survival_after_alignment:
  "align_features fs art pd = Inr df \<Longrightarrow>
   predict_survival fs art pd =
     (case scaler art df of
        Inl e \<Rightarrow> Inl e
      | Inr xs \<Rightarrow> (case model art xs of Inl e \<Rightarrow> Inl e | Inr d \<Rightarrow> Inr (report d)))"
  by (simp add: predict_survival_def)

section \<open>Lemmas about rounding and the request\<close>

lemma rint_whole: "rint x \<in> \<int>"
  by (simp add: rint_def Let_def)

lemma rint_close: "\<bar>rint x - x\<bar> \<le> 1 / 2"
  unfolding rint_def Let_def by (auto split: if_splits)

lemma rint_nonneg: "0 \<le> x \<Longrightarrow> 0 \<le> rint x"
proof -
  assume "0 \<le> x"
  then have "0 \<le> \<lfloor>x\<rfloor>" by simp
  then show ?thesis by (simp add: rint_def Let_def)
qed

lemma rint_neg: "x < - 1 / 2 \<Longrightarrow> rint x < 0"
proof -
  assume a: "x < - 1 / 2"
  then have f: "\<lfloor>x\<rfloor> \<le> - 1" by (simp add: floor_le_iff)
  show ?thesis
  proof (cases "\<lfloor>x\<rfloor> = - 1")
    case True
    then have "x - of_int \<lfloor>x\<rfloor> < 1 / 2" using a by simp
    then show ?thesis using True by (simp add: rint_def Let_def)
  next
    case False
    then have "\<lfloor>x\<rfloor> + 1 < 0" using f by linarith
    then have "real_of_int \<lfloor>x\<rfloor> + 1 < 0" "real_of_int \<lfloor>x\<rfloor> < 0"
      by (metis of_int_1 of_int_add of_int_less_0_iff, linarith)
    then show ?thesis by (simp add: rint_def Let_def)
  qed
qed

lemma predicted_days_report: "predicted_days (report d) = rint d"
  by (simp add: report_def py_round_def split_def Let_def)

lemma to_model_dict_returns:
  "to_model_dict p =
     Inr [(''Age'', PInt (Age p)), (''Gender'', PStr (Gender p)),
          (''Protein1'', PFloat (Protein1 p)), (''Protein2'', PFloat (Protein2 p)),
          (''Protein3'', PFloat (Protein3 p)), (''Protein4'', PFloat (Protein4 p)),
          (''Tumour_Stage'', PStr (Tumour_Stage p)), (''Histology'', PStr (Histology p)),
          (''Surgery_type'', PStr (Surgery_type p)), (''ER status'', PStr (ER_status p)),
          (''PR status'', PStr (PR_status p)), (''HER2 status'', PStr (HER2_status p))]"
  by (simp add: to_model_dict_def move_key_def model_dump_def)

lemma validate_patient1_body: "validate_PatientData patient1_body = Inr patient1_body"
  by (simp add: validate_PatientData_def patient1_body_def run_validator_def check_bounds_def
      validate_gender_def validate_tumour_stage_def validate_status_def
      upper_def upper_char_def lower_char_def lowercase_letters_def uppercase_letters_def)

section \<open>Lemmas about the validation\<close>

lemmas letter_defs =
  upper_def lower_def upper_char_def lower_char_def lowercase_letters_def uppercase_letters_def

lemma validate_PatientData_eq:
  "validate_PatientData body =
     (if request_errors body = [] then Inr (normalized body) else Inl (request_errors body))"
  by (simp add: validate_PatientData_def request_errors_def normalized_def split_def Let_def)

lemma check_bounds_fields:
  "fst ` set (check_bounds loc ge le v) = (if v < ge \<or> le < v then {loc} else {})"
  by (simp add: check_bounds_def)

lemma run_validator_fields:
  "fst ` set (fst (run_validator loc f v)) = (if isl (f v) then {loc} else {})"
  by (simp add: run_validator_def split: sum.splits)

lemma run_validator_issues:
  "set (fst (run_validator loc f v)) =
     (case f v of Inl e \<Rightarrow> {(loc, value_error (exception_str e))} | Inr _ \<Rightarrow> {})"
  by (simp add: run_validator_def split: sum.splits)

lemma check_bounds_no_value_error: "(l, value_error m) \<notin> set (check_bounds loc ge le v)"
  by (simp add: check_bounds_def)

lemma isl_validate_gender: "isl (validate_gender v) = (upper v \<notin> {''MALE'', ''FEMALE''})"
  by (auto simp: validate_gender_def letter_defs)

lemma isl_validate_tumour_stage:
  "isl (validate_tumour_stage v) = (upper v \<notin> {''I'', ''II'', ''III''})"
  by (simp add: validate_tumour_stage_def)

lemma validate_status_cases:
  "validate_status v =
     (if v \<in> set status_spellings then Inr (capitalize v)
      else Inl (ValueError (''Status must be one of: '' @ repr_list status_spellings)))"
  by (simp add: validate_status_def status_spellings_def)

lemma isl_validate_status: "isl (validate_status v) = (v \<notin> set status_spellings)"
  by (simp add: validate_status_cases)

lemma request_errors_fields: "fst ` set (request_errors body) = offending_fields body"
  unfolding request_errors_def offending_fields_def set_append image_Un
    check_bounds_fields run_validator_fields
    isl_validate_gender isl_validate_tumour_stage isl_validate_status
  by simp

lemma capitalize_spellings:
  "v \<in> set status_spellings \<Longrightarrow>
   (capitalize v = ''Positive'' \<or> capitalize v = ''Negative'') \<and>
   matches_ignoring_case v (capitalize v)"
  by (auto simp: status_spellings_def matches_ignoring_case_def letter_defs)

lemma spellings_match:
  "v \<in> set status_spellings \<Longrightarrow>
   matches_ignoring_case v ''Positive'' \<or> matches_ignoring_case v ''Negative''"
  by (auto simp: status_spellings_def matches_ignoring_case_def letter_defs)


lemma run_validator_other_field:
  "loc \<noteq> loc' \<Longrightarrow> (loc, i) \<notin> set (fst (run_validator loc' f w))"
  by (simp add: run_validator_issues split: sum.splits)

lemma offending_fields_names:
  "offending_fields body \<subseteq>
     {''Age'', ''Gender'', ''Protein1'', ''Protein2'', ''Protein3'', ''Protein4'',
      ''Tumour_Stage'', ''ER status'', ''PR status'', ''HER2 status''}"
  unfolding offending_fields_def by (intro Un_least) simp_all

lemma not_reported:
  assumes "l \<notin> {''Age'', ''Gender'', ''Protein1'', ''Protein2'', ''Protein3'', ''Protein4'',
      ''Tumour_Stage'', ''ER status'', ''PR status'', ''HER2 status''}"
  shows "l \<notin> fst ` set (request_errors body)"
proof
  assume "l \<in> fst ` set (request_errors body)"
  then have "l \<in> offending_fields body" by (simp only: request_errors_fields)
  then have "l \<in> {''Age'', ''Gender'', ''Protein1'', ''Protein2'', ''Protein3'', ''Protein4'',
      ''Tumour_Stage'', ''ER status'', ''PR status'', ''HER2 status''}"
    by (rule subsetD [OF offending_fields_names])
  with assms show False by (rule notE)
qed

lemma free_text_not_reported:
  "''Histology'' \<notin> fst ` set (request_errors body)"
  "''Surgery_type'' \<notin> fst ` set (request_errors body)"
  by (rule not_reported, simp)+

section \<open>Lemmas about the examples\<close>

lemma str_nat_12: "str_nat 12 = ''12''" "str_nat 11 = ''11''"
  by (simp_all add: str_nat.simps)

lemma mismatched_scaler_raises:
  "length df = 12 \<Longrightarrow>
   scaler mismatched_bundle df =
     Inl (ValueError ''X has 12 features, but StandardScaler is expecting 11 features as input.'')"
proof -
  assume l: "length df = 12"
  have m: "length [0, 0, 0, 0, 0, 0, 0, 0, 0, 0, 0 :: real] = 11" by simp
  have s: "scaler mismatched_bundle =
      standard_scaler [0, 0, 0, 0, 0, 0, 0, 0, 0, 0, 0] [1, 1, 1, 1, 1, 1, 1, 1, 1, 1, 1]"
    by (simp add: mismatched_bundle_def)
  show ?thesis
    unfolding s standard_scaler_def l m str_nat_12 by simp
qed

lemma mismatched_alignment:
  "\<exists>df. align_features float_str mismatched_bundle d = Inr df \<and> length df = 12"
proof -
  obtain df where a: "align_features float_str mismatched_bundle d = Inr df"
    and f: "map fst df = features mismatched_bundle"
    using align_features_returns [of float_str mismatched_bundle d] by blast
  have "length (features mismatched_bundle) = 12"
    by (simp add: mismatched_bundle_def example_bundle_def example_features_def)
  then have "length df = 12" using f by (metis length_map)
  with a show ?thesis by blast
qed

lemma mismatched_prediction:
  "predict_survival float_str mismatched_bundle d =
     Inl (ValueError ''X has 12 features, but StandardScaler is expecting 11 features as input.'')"
proof -
  obtain df where a: "align_features float_str mismatched_bundle d = Inr df"
    and l: "length df = 12"
    using mismatched_alignment by blast
  show ?thesis
    unfolding predict_survival_after_alignment [OF a] mismatched_scaler_raises [OF l] by simp
qed

lemma validate_underage_body:
  "validate_PatientData (patient1_body\<lparr>Age := 17\<rparr>) = Inl [(''Age'', greater_than_equal 18)]"
  unfolding validate_PatientData_def patient1_body_def run_validator_def check_bounds_def
    validate_status_cases
  by (simp add: validate_gender_def validate_tumour_stage_def status_spellings_def letter_defs)

section \<open>Properties\<close>

text \<open>
  C1. For every raw day estimate \<open>d\<close> the tier is found by the ordered thresholds, the
  first match winning and each lower bound inclusive: below 180 HIGH RISK, from 180 to
  below 365 ELEVATED RISK, from 365 to below 730 MODERATE RISK, from 730 on LOWER RISK,
  each tier with its own recommendation; 180, 365 and 730 themselves fall into the
  ELEVATED, MODERATE and LOWER tier.
\<close>

theorem risk_tier_thresholds:
  "(d < 180 \<longleftrightarrow>
      risk_category (report d) = ''HIGH RISK'' \<and>
      recommendation (report d) = ''Immediate intensive care and close monitoring required'') \<and>
   (180 \<le> d \<and> d < 365 \<longleftrightarrow>
      risk_category (report d) = ''ELEVATED RISK'' \<and>
      recommendation (report d) = ''Enhanced monitoring and aggressive treatment recommended'') \<and>
   (365 \<le> d \<and> d < 730 \<longleftrightarrow>
      risk_category (report d) = ''MODERATE RISK'' \<and>
      recommendation (report d) = ''Standard treatment protocol with regular follow-ups'') \<and>
   (730 \<le> d \<longleftrightarrow>
      risk_category (report d) = ''LOWER RISK'' \<and>
      recommendation (report d) = ''Standard care with routine monitoring'') \<and>
   risk_category (report 180) = ''ELEVATED RISK'' \<and>
   risk_category (report 365) = ''MODERATE RISK'' \<and>
   risk_category (report 730) = ''LOWER RISK''"
  by (simp add: report_def risk_stratification_def)

text \<open>
  C2. The claim that the day estimate and \<^verbatim>\<open>predicted_days\<close> are never negative fails:
  nothing between \<^verbatim>\<open>model.predict\<close> and the returned dictionary bounds the estimate,
  and a linear regressor can return a negative one. Here the first example patient of
  the script passes the validation of the request and is reported with \<open>-90\<close> days.
\<close>

theorem negative_estimate_counterexample:
  "validate_PatientData patient1_body = Inr patient1_body \<and>
   post_predict whole_float_str low_intercept_bundle patient1_body =
     Prediction \<lparr>predicted_days = - 90, predicted_months = - 3, predicted_years = - 0.25,
                 risk_category = ''HIGH RISK'', risk_color = red_circle,
                 recommendation = ''Immediate intensive care and close monitoring required''\<rparr>"
proof -
  have "predict_survival whole_float_str low_intercept_bundle
          [(''Age'', PInt 68), (''Gender'', PStr ''FEMALE''),
           (''Protein1'', PFloat (- 0.5)), (''Protein2'', PFloat 0.8),
           (''Protein3'', PFloat 0.2), (''Protein4'', PFloat (- 0.3)),
           (''Tumour_Stage'', PStr ''III''),
           (''Histology'', PStr ''Infiltrating Ductal Carcinoma''),
           (''Surgery_type'', PStr ''Mastectomy''), (''ER status'', PStr ''Negative''),
           (''PR status'', PStr ''Negative''), (''HER2 status'', PStr ''Positive'')] =
        Inr (report (- 90))"
    by (simp add: predict_survival_def low_intercept_bundle_def example_bundle_def
        example_features_def example_encoders_def align_features_def transform_def
        standard_scaler_def linear_regression_def)
  moreover have "report (- 90) =
     \<lparr>predicted_days = - 90, predicted_months = - 3, predicted_years = - 0.25,
      risk_category = ''HIGH RISK'', risk_color = red_circle,
      recommendation = ''Immediate intensive care and close monitoring required''\<rparr>"
    by (simp add: report_def py_round_def rint_def risk_stratification_def)
  ultimately show ?thesis
    unfolding post_predict_def validate_patient1_body
    by (simp add: predict_def to_model_dict_returns patient1_body_def)
qed

text \<open>
  C2, as the code has it. Whenever \<^verbatim>\<open>predict_survival\<close> returns, \<^verbatim>\<open>predicted_days\<close> is
  the estimate of the regressor rounded to a whole number of days, a tie going to the
  even neighbour, so it is within half a day of the estimate. It is non-negative when
  the estimate is, and negative when the estimate is below \<open>-1/2\<close>.
\<close>

theorem predicted_days_rounds_raw_estimate:
  assumes "predict_survival float_str art patient_data = Inr r"
  shows "\<exists>df xs d. align_features float_str art patient_data = Inr df \<and>
     scaler art df = Inr xs \<and> model art xs = Inr d \<and>
     predicted_days r = rint d \<and>
     predicted_days r \<in> \<int> \<and>
     \<bar>predicted_days r - d\<bar> \<le> 1 / 2 \<and>
     (0 \<le> d \<longrightarrow> 0 \<le> predicted_days r) \<and>
     (d < - 1 / 2 \<longrightarrow> predicted_days r < 0)"
proof -
  from assms obtain df xs d where a: "align_features float_str art patient_data = Inr df"
    and s: "scaler art df = Inr xs" and m: "model art xs = Inr d" and r: "r = report d"
    by (auto simp: predict_survival_def split: sum.splits)
  have "predicted_days r = rint d" using r by (simp add: predicted_days_report)
  with a s m rint_whole [of d] rint_close [of d] rint_nonneg [of d] rint_neg [of d]
  show ?thesis by auto
qed

theorem predicted_days_rounds_raw_estimate_witness:
  "predict_survival whole_float_str example_bundle patient1 = Inr (report 210) \<and>
   predicted_days (report 210) = 210"
proof -
  have p: "predict_survival whole_float_str example_bundle patient1 = Inr (report 210)"
    by (simp add: predict_survival_def example_bundle_def example_features_def
        example_encoders_def patient1_def align_features_def transform_def
        standard_scaler_def linear_regression_def)
  from predicted_days_rounds_raw_estimate [OF p] p show ?thesis
    by (simp add: predicted_days_report rint_def)
qed

text \<open>
  C3. The claim that every case mixture of Positive or Negative is accepted fails:
  \<^verbatim>\<open>validate_status\<close> tests \<^verbatim>\<open>v not in allowed\<close> against six spellings, so
  \<^verbatim>\<open>pOSITIVE\<close>, which matches Positive when case is ignored, is refused.
\<close>

theorem mixed_case_status_counterexample:
  "matches_ignoring_case ''pOSITIVE'' ''Positive'' \<and>
   validate_status ''pOSITIVE'' =
     Inl (ValueError (''Status must be one of: '' @ repr_list status_spellings)) \<and>
   validate_PatientData (patient1_body\<lparr>ER_status := ''pOSITIVE''\<rparr>) =
     Inl [(''ER status'',
           value_error (''Status must be one of: '' @ repr_list status_spellings))]"
proof -
  have a: "matches_ignoring_case ''pOSITIVE'' ''Positive''"
    by (simp add: matches_ignoring_case_def letter_defs)
  have b: "validate_status ''pOSITIVE'' =
     Inl (ValueError (''Status must be one of: '' @ repr_list status_spellings))"
    by (simp add: validate_status_cases status_spellings_def)
  have c: "validate_PatientData (patient1_body\<lparr>ER_status := ''pOSITIVE''\<rparr>) =
     Inl [(''ER status'',
           value_error (''Status must be one of: '' @ repr_list status_spellings))]"
    unfolding validate_PatientData_def patient1_body_def run_validator_def check_bounds_def
      validate_status_cases
    by (simp add: validate_gender_def validate_tumour_stage_def status_spellings_def letter_defs)
  from a b c show ?thesis by simp
qed

text \<open>
  C3, as the code has it. A status string that is one of the six spellings Positive,
  Negative, positive, negative, POSITIVE, NEGATIVE is accepted and normalised to
  Positive or Negative, the one it matches when case is ignored. Every other string,
  among them every string that matches neither when case is ignored, is refused with
  the message that lists the six spellings, and the report is filed under the field
  it belongs to: \<^verbatim>\<open>ER status\<close>, \<^verbatim>\<open>PR status\<close> or \<^verbatim>\<open>HER2 status\<close>.
\<close>

theorem status_validation_by_spelling:
  "(v \<in> set status_spellings \<longrightarrow>
      validate_status v = Inr (capitalize v) \<and>
      (capitalize v = ''Positive'' \<or> capitalize v = ''Negative'') \<and>
      matches_ignoring_case v (capitalize v)) \<and>
   (v \<notin> set status_spellings \<longrightarrow>
      validate_status v =
        Inl (ValueError (''Status must be one of: '' @ repr_list status_spellings))) \<and>
   (\<not> matches_ignoring_case v ''Positive'' \<and> \<not> matches_ignoring_case v ''Negative'' \<longrightarrow>
      v \<notin> set status_spellings) \<and>
   (\<forall>errors. validate_PatientData body = Inl errors \<longrightarrow>
      ((''ER status'', value_error (''Status must be one of: '' @ repr_list status_spellings))
         \<in> set errors) = (ER_status body \<notin> set status_spellings) \<and>
      ((''PR status'', value_error (''Status must be one of: '' @ repr_list status_spellings))
         \<in> set errors) = (PR_status body \<notin> set status_spellings) \<and>
      ((''HER2 status'', value_error (''Status must be one of: '' @ repr_list status_spellings))
         \<in> set errors) = (HER2_status body \<notin> set status_spellings)) \<and>
   (\<forall>p. validate_PatientData body = Inr p \<longrightarrow>
      ER_status p = capitalize (ER_status body) \<and> ER_status body \<in> set status_spellings \<and>
      PR_status p = capitalize (PR_status body) \<and> PR_status body \<in> set status_spellings \<and>
      HER2_status p = capitalize (HER2_status body) \<and> HER2_status body \<in> set status_spellings)"
proof -
  let ?msg = "''Status must be one of: '' @ repr_list status_spellings"
  have a: "v \<in> set status_spellings \<Longrightarrow>
      validate_status v = Inr (capitalize v) \<and>
      (capitalize v = ''Positive'' \<or> capitalize v = ''Negative'') \<and>
      matches_ignoring_case v (capitalize v)"
    using capitalize_spellings [of v] by (simp add: validate_status_cases)
  have b: "v \<notin> set status_spellings \<Longrightarrow> validate_status v = Inl (ValueError ?msg)"
    by (simp add: validate_status_cases)
  have c: "\<not> matches_ignoring_case v ''Positive'' \<and> \<not> matches_ignoring_case v ''Negative'' \<Longrightarrow>
      v \<notin> set status_spellings"
    using spellings_match [of v] by blast
  have m: "((loc, value_error ?msg) \<in> set (fst (run_validator loc' validate_status w))) =
      (loc = loc' \<and> w \<notin> set status_spellings)" for loc loc' w
    by (simp add: run_validator_issues validate_status_cases)
  have d: "((''ER status'', value_error ?msg) \<in> set (request_errors body)) =
             (ER_status body \<notin> set status_spellings)"
    "((''PR status'', value_error ?msg) \<in> set (request_errors body)) =
             (PR_status body \<notin> set status_spellings)"
    "((''HER2 status'', value_error ?msg) \<in> set (request_errors body)) =
             (HER2_status body \<notin> set status_spellings)"
    unfolding request_errors_def set_append Un_iff m
    by (simp_all add: check_bounds_no_value_error run_validator_other_field)
  have e: "request_errors body = [] \<Longrightarrow>
      ER_status body \<in> set status_spellings \<and> PR_status body \<in> set status_spellings \<and>
      HER2_status body \<in> set status_spellings"
    using d by (metis empty_iff empty_set)
  have n: "snd (run_validator loc validate_status w) = capitalize w"
    if "w \<in> set status_spellings" for loc w
    using that by (simp add: run_validator_def validate_status_cases)
  have f: "validate_PatientData body = Inr p \<Longrightarrow>
      ER_status p = capitalize (ER_status body) \<and> ER_status body \<in> set status_spellings \<and>
      PR_status p = capitalize (PR_status body) \<and> PR_status body \<in> set status_spellings \<and>
      HER2_status p = capitalize (HER2_status body) \<and> HER2_status body \<in> set status_spellings"
    for p
    using e n by (auto simp: validate_PatientData_eq normalized_def split: if_splits)
  have h: "validate_PatientData body = Inl errors \<Longrightarrow> errors = request_errors body" for errors
    by (simp add: validate_PatientData_eq split: if_splits)
  from a b c d f h show ?thesis by blast
qed


theorem status_validation_by_spelling_witness:
  "''POSITIVE'' \<in> set status_spellings \<and>
   validate_status ''POSITIVE'' = Inr ''Positive'' \<and>
   ''maybe'' \<notin> set status_spellings \<and>
   \<not> matches_ignoring_case ''maybe'' ''Positive'' \<and>
   \<not> matches_ignoring_case ''maybe'' ''Negative'' \<and>
   validate_status ''maybe'' =
     Inl (ValueError (''Status must be one of: '' @ repr_list status_spellings)) \<and>
   validate_PatientData patient1_body = Inr patient1_body \<and>
   ER_status patient1_body = ''Negative'' \<and>
   validate_PatientData (patient1_body\<lparr>PR_status := ''maybe''\<rparr>) =
     Inl [(''PR status'',
           value_error (''Status must be one of: '' @ repr_list status_spellings))]"
proof -
  have a: "''POSITIVE'' \<in> set status_spellings" "''maybe'' \<notin> set status_spellings"
    by (simp_all add: status_spellings_def)
  have b: "capitalize ''POSITIVE'' = ''Positive''"
    by (simp add: letter_defs)
  have c: "\<not> matches_ignoring_case ''maybe'' ''Positive''"
    "\<not> matches_ignoring_case ''maybe'' ''Negative''"
    by (simp_all add: matches_ignoring_case_def letter_defs)
  have d: "validate_PatientData (patient1_body\<lparr>PR_status := ''maybe''\<rparr>) =
     Inl [(''PR status'',
           value_error (''Status must be one of: '' @ repr_list status_spellings))]"
    unfolding validate_PatientData_def patient1_body_def run_validator_def check_bounds_def
      validate_status_cases
    by (simp add: validate_gender_def validate_tumour_stage_def status_spellings_def letter_defs)
  have e: "ER_status patient1_body = ''Negative''"
    by (simp add: patient1_body_def)
  from status_validation_by_spelling [of "''POSITIVE''" patient1_body] a(1)
  have p: "validate_status ''POSITIVE'' = Inr (capitalize ''POSITIVE'')" by blast
  from status_validation_by_spelling [of "''maybe''" patient1_body] a(2)
  have q: "validate_status ''maybe'' =
     Inl (ValueError (''Status must be one of: '' @ repr_list status_spellings))" by blast
  from p q a b c d e validate_patient1_body show ?thesis by simp
qed

text \<open>
  C4. For every raw day estimate, the tier, the colour and the recommendation of the
  report are those of the unrounded estimate. Rounding for display does not move the
  tier: an estimate from 179.5 to below 180 is reported as 180 days and is HIGH RISK,
  although 180 days is ELEVATED RISK; so it is for 179.6.
\<close>

theorem tier_uses_unrounded_estimate:
  "(risk_category (report d), risk_color (report d), recommendation (report d)) =
     risk_stratification d \<and>
   (179.5 \<le> d \<and> d < 180 \<longrightarrow>
      predicted_days (report d) = 180 \<and>
      risk_category (report d) = ''HIGH RISK'' \<and>
      risk_category (report (predicted_days (report d))) = ''ELEVATED RISK'') \<and>
   risk_category (report 179.6) = ''HIGH RISK'' \<and>
   predicted_days (report 179.6) = 180 \<and>
   risk_category (report 180) = ''ELEVATED RISK''"
proof -
  have a: "(risk_category (report d), risk_color (report d), recommendation (report d)) =
     risk_stratification d"
    by (simp add: report_def split_def Let_def)
  have b: "predicted_days (report d) = 180 \<and> risk_category (report d) = ''HIGH RISK'' \<and>
      risk_category (report (predicted_days (report d))) = ''ELEVATED RISK''"
    if "179.5 \<le> d" "d < 180"
  proof -
    have f: "\<lfloor>d\<rfloor> = 179" using that by (simp add: floor_eq_iff)
    have r: "rint d = 180" using that f by (simp add: rint_def Let_def)
    have h: "risk_category (report d) = ''HIGH RISK''"
      using that by (simp add: report_def risk_stratification_def)
    have e: "risk_category (report 180) = ''ELEVATED RISK''"
      by (simp add: report_def risk_stratification_def)
    show ?thesis using r h e by (simp add: predicted_days_report)
  qed
  have c: "risk_category (report 179.6) = ''HIGH RISK''"
    "predicted_days (report 179.6) = 180"
    "risk_category (report 180) = ''ELEVATED RISK''"
    by (simp_all add: report_def risk_stratification_def py_round_def rint_def)
  from a b c show ?thesis by blast
qed

theorem tier_uses_unrounded_estimate_witness:
  "(179.5::real) \<le> 179.6 \<and> (179.6::real) < 180 \<and>
   predicted_days (report 179.6) = 180 \<and>
   risk_category (report 179.6) = ''HIGH RISK'' \<and>
   risk_category (report (predicted_days (report 179.6))) = ''ELEVATED RISK''"
  using tier_uses_unrounded_estimate [of "179.6"] by simp

text \<open>
  C5. For every patient record, the alignment returns and never raises; the frame it
  returns has exactly the columns of the feature list of the metadata, in that order
  and number, so a column of the record that the list lacks is dropped; a listed column
  without an encoder keeps the value of the record. The frame is numeric when every
  listed column that holds a string in the record has an encoder.
\<close>

theorem feature_alignment_follows_schema:
  "\<exists>v. align_features float_str art patient_data = Inr v \<and>
     map fst v = features art \<and>
     length v = length (features art) \<and>
     (\<forall>i x. i < length (features art) \<longrightarrow>
        features art ! i \<notin> set (map fst (label_encoders art)) \<longrightarrow>
        map_of patient_data (features art ! i) = Some x \<longrightarrow> v ! i = (features art ! i, x)) \<and>
     ((\<forall>c s. c \<in> set (features art) \<longrightarrow> map_of patient_data c = Some (PStr s) \<longrightarrow>
          c \<in> set (map fst (label_encoders art))) \<longrightarrow>
      (\<forall>p \<in> set v. is_numeric (snd p)))"
proof -
  define df0 where "df0 = ensure_features (features art) patient_data"
  obtain v df' where r: "align_features float_str art patient_data = Inr v"
    and o: "map fst v = features art"
    and e: "encode_categorical float_str (label_encoders art) df0 = Inr df'"
    and k: "map fst df' = map fst df0"
    and c: "\<forall>p \<in> set v. map_of df' (fst p) = Some (snd p)"
    using align_features_returns [of float_str art patient_data] unfolding df0_def by blast
  have kept: "v ! i = (features art ! i, x)"
    if "i < length (features art)"
      and "features art ! i \<notin> set (map fst (label_encoders art))"
      and "map_of patient_data (features art ! i) = Some x" for i x
  proof -
    have "map_of df0 (features art ! i) = Some x"
      using that(3) by (simp add: df0_def map_of_ensure_features)
    from encode_categorical_cell [OF e this] that(2)
    have "map_of df' (features art ! i) = Some x" by auto
    from aligned_cell [OF o that(1) c this] show ?thesis .
  qed
  have numeric: "is_numeric (snd p)"
    if h: "\<forall>c s. c \<in> set (features art) \<longrightarrow> map_of patient_data c = Some (PStr s) \<longrightarrow>
          c \<in> set (map fst (label_encoders art))"
      and p: "p \<in> set v" for p
  proof -
    have f: "fst p \<in> set (features art)" using o p by (metis image_eqI list.set_map)
    have "fst p \<in> set (map fst df0)"
      using f ensure_features_keys [of "features art" patient_data] by (simp add: df0_def)
    then obtain v0 where v0: "map_of df0 (fst p) = Some v0"
      by (metis map_of_eq_None_iff not_Some_eq set_map)
    from encode_categorical_cell [OF e v0] c p
    have d: "(\<exists>k. snd p = PInt k) \<or> (fst p \<notin> set (map fst (label_encoders art)) \<and> snd p = v0)"
      by (auto split: if_splits)
    show ?thesis
    proof (cases "\<exists>k. snd p = PInt k")
      case True
      then show ?thesis by auto
    next
      case False
      then have n: "fst p \<notin> set (map fst (label_encoders art))" and s: "snd p = v0"
        using d by auto
      have "map_of patient_data (fst p) = Some v0 \<or> v0 = PInt 0"
        using v0 by (auto simp: df0_def map_of_ensure_features split: option.splits if_splits)
      then show ?thesis using h f n s by (cases v0) auto
    qed
  qed
  from r o kept numeric show ?thesis
    by (intro exI [of _ v]) (metis length_map)
qed

theorem feature_alignment_follows_schema_witness:
  "align_features whole_float_str example_bundle patient1 =
     Inr [(''Age'', PInt 68), (''Gender'', PInt 0), (''Protein1'', PFloat (- 0.5)),
          (''Protein2'', PFloat 0.8), (''Protein3'', PFloat 0.2), (''Protein4'', PFloat (- 0.3)),
          (''Tumour_Stage'', PInt 2), (''Histology'', PInt 0), (''ER status'', PInt 0),
          (''PR status'', PInt 0), (''HER2 status'', PInt 1), (''Surgery_type'', PInt 0)] \<and>
   list_all (\<lambda>p. is_numeric (snd p))
     [(''Age'', PInt 68), (''Gender'', PInt 0), (''Protein1'', PFloat (- 0.5)),
          (''Protein2'', PFloat 0.8), (''Protein3'', PFloat 0.2), (''Protein4'', PFloat (- 0.3)),
          (''Tumour_Stage'', PInt 2), (''Histology'', PInt 0), (''ER status'', PInt 0),
          (''PR status'', PInt 0), (''HER2 status'', PInt 1), (''Surgery_type'', PInt 0)]"
proof -
  have h: "\<forall>c s. c \<in> set (features example_bundle) \<longrightarrow> map_of patient1 c = Some (PStr s) \<longrightarrow>
          c \<in> set (map fst (label_encoders example_bundle))"
    by (auto simp: example_bundle_def example_features_def example_encoders_def patient1_def)
  have a: "align_features whole_float_str example_bundle patient1 =
     Inr [(''Age'', PInt 68), (''Gender'', PInt 0), (''Protein1'', PFloat (- 0.5)),
          (''Protein2'', PFloat 0.8), (''Protein3'', PFloat 0.2), (''Protein4'', PFloat (- 0.3)),
          (''Tumour_Stage'', PInt 2), (''Histology'', PInt 0), (''ER status'', PInt 0),
          (''PR status'', PInt 0), (''HER2 status'', PInt 1), (''Surgery_type'', PInt 0)]"
    by (simp add: example_bundle_def example_features_def example_encoders_def patient1_def
        align_features_def transform_def)
  from feature_alignment_follows_schema [of whole_float_str example_bundle patient1] h a
  show ?thesis by (auto simp: list_all_iff)
qed

text \<open>
  C6. For every column of the encoder table whose encoder does not know the value the
  record has there, the column holds the integer code 0, at the position of the column
  in the feature list, and the alignment returns: what \<^verbatim>\<open>predict_survival\<close> returns or
  raises from there on is what the scaler and the regressor return or raise on that
  frame. The encoder table is a dictionary: its keys are distinct.
\<close>

theorem unknown_category_encoded_as_zero:
  assumes "distinct (map fst (label_encoders art))"
    and "(col, le) \<in> set (label_encoders art)"
    and "map_of patient_data col = Some v"
    and "transform le (astype_str float_str v) = Inl e"
  shows "\<exists>df. align_features float_str art patient_data = Inr df \<and>
     (\<forall>i < length (features art). features art ! i = col \<longrightarrow> df ! i = (col, PInt 0)) \<and>
     predict_survival float_str art patient_data =
       (case scaler art df of
          Inl e \<Rightarrow> Inl e
        | Inr xs \<Rightarrow> (case model art xs of Inl e \<Rightarrow> Inl e | Inr d \<Rightarrow> Inr (report d)))"
proof -
  define df0 where "df0 = ensure_features (features art) patient_data"
  obtain df df' where r: "align_features float_str art patient_data = Inr df"
    and o: "map fst df = features art"
    and e: "encode_categorical float_str (label_encoders art) df0 = Inr df'"
    and c: "\<forall>p \<in> set df. map_of df' (fst p) = Some (snd p)"
    using align_features_returns [of float_str art patient_data] unfolding df0_def by blast
  have "map_of (label_encoders art) col = Some le"
    using assms(1,2) by simp
  moreover have "map_of df0 col = Some v"
    using assms(3) by (simp add: df0_def map_of_ensure_features)
  ultimately have z: "map_of df' col = Some (PInt 0)"
    using encode_categorical_lookup [OF e assms(1), of col] assms(4)
    by (simp add: encoded_cell_def)
  have "df ! i = (col, PInt 0)" if "i < length (features art)" "features art ! i = col" for i
    using aligned_cell [OF o that(1) c] z that(2) by simp
  with r predict_survival_after_alignment [OF r] show ?thesis by blast
qed

theorem unknown_category_encoded_as_zero_witness:
  "(\<exists>e. transform [''Lumpectomy'', ''Modified Radical Mastectomy'', ''Other'', ''Simple Mastectomy'']
          ''Mastectomy'' = Inl e) \<and>
   (\<exists>df. align_features whole_float_str example_bundle patient1 = Inr df \<and>
         df ! 11 = (''Surgery_type'', PInt 0)) \<and>
   predict_survival whole_float_str example_bundle patient1 = Inr (report 210)"
proof -
  let ?le = "[''Lumpectomy'', ''Modified Radical Mastectomy'', ''Other'', ''Simple Mastectomy'']"
  have d: "distinct (map fst (label_encoders example_bundle))"
    by (simp add: example_bundle_def example_encoders_def)
  have m: "(''Surgery_type'', ?le) \<in> set (label_encoders example_bundle)"
    by (simp add: example_bundle_def example_encoders_def)
  have v: "map_of patient1 ''Surgery_type'' = Some (PStr ''Mastectomy'')"
    by (simp add: patient1_def)
  obtain e where t: "transform ?le (astype_str whole_float_str (PStr ''Mastectomy'')) = Inl e"
    by (simp add: transform_def)
  have f: "features example_bundle ! 11 = ''Surgery_type''" "11 < length (features example_bundle)"
    by (simp_all add: example_bundle_def example_features_def)
  have p: "predict_survival whole_float_str example_bundle patient1 = Inr (report 210)"
    by (simp add: predict_survival_def example_bundle_def example_features_def
        example_encoders_def patient1_def align_features_def transform_def
        standard_scaler_def linear_regression_def)
  from unknown_category_encoded_as_zero [OF d m v t] f p t show ?thesis by auto
qed

text \<open>
  C7. For every name of the feature list that is not a key of the patient record, the
  aligned frame holds the default 0 at the position of that name, and the alignment
  returns: what \<^verbatim>\<open>predict_survival\<close> returns or raises from there on is what the scaler
  and the regressor return or raise on that frame. The default is encoded like any
  other cell, as the text \<^verbatim>\<open>0\<close>; the theorem is for the encoder tables in which no
  encoder of the missing column gives that text a code other than 0.
\<close>

theorem missing_feature_defaults_to_zero:
  assumes "i < length (features art)"
    and "features art ! i \<notin> set (map fst patient_data)"
    and "\<forall>le k. (features art ! i, le) \<in> set (label_encoders art) \<longrightarrow>
           transform le ''0'' = Inr k \<longrightarrow> k = 0"
  shows "\<exists>df. align_features float_str art patient_data = Inr df \<and>
     df ! i = (features art ! i, PInt 0) \<and>
     predict_survival float_str art patient_data =
       (case scaler art df of
          Inl e \<Rightarrow> Inl e
        | Inr xs \<Rightarrow> (case model art xs of Inl e \<Rightarrow> Inl e | Inr d \<Rightarrow> Inr (report d)))"
proof -
  define df0 where "df0 = ensure_features (features art) patient_data"
  obtain df df' where r: "align_features float_str art patient_data = Inr df"
    and o: "map fst df = features art"
    and e: "encode_categorical float_str (label_encoders art) df0 = Inr df'"
    and c: "\<forall>p \<in> set df. map_of df' (fst p) = Some (snd p)"
    using align_features_returns [of float_str art patient_data] unfolding df0_def by blast
  have "map_of patient_data (features art ! i) = None"
    using assms(2) by (simp add: map_of_eq_None_iff)
  then have "map_of df0 (features art ! i) = Some (PInt 0)"
    using assms(1) by (simp add: df0_def map_of_ensure_features)
  from encode_categorical_default [OF e this assms(3)]
  have "map_of df' (features art ! i) = Some (PInt 0)" .
  from aligned_cell [OF o assms(1) c this] r predict_survival_after_alignment [OF r]
  show ?thesis by blast
qed

theorem missing_feature_defaults_to_zero_witness:
  "features example_bundle ! 5 = ''Protein4'' \<and>
   ''Protein4'' \<notin> set (map fst patient_without_protein4) \<and>
   align_features whole_float_str example_bundle patient_without_protein4 =
     Inr [(''Age'', PInt 68), (''Gender'', PInt 0), (''Protein1'', PFloat (- 0.5)),
          (''Protein2'', PFloat 0.8), (''Protein3'', PFloat 0.2), (''Protein4'', PInt 0),
          (''Tumour_Stage'', PInt 2), (''Histology'', PInt 0), (''ER status'', PInt 0),
          (''PR status'', PInt 0), (''HER2 status'', PInt 1), (''Surgery_type'', PInt 0)] \<and>
   predict_survival whole_float_str example_bundle patient_without_protein4 = Inr (report 210)"
proof -
  have i: "5 < length (features example_bundle)" and f: "features example_bundle ! 5 = ''Protein4''"
    by (simp_all add: example_bundle_def example_features_def)
  have a: "features example_bundle ! 5 \<notin> set (map fst patient_without_protein4)"
    by (simp add: f patient_without_protein4_def patient1_def)
  have n: "\<forall>le k. (features example_bundle ! 5, le) \<in> set (label_encoders example_bundle) \<longrightarrow>
           transform le ''0'' = Inr k \<longrightarrow> k = 0"
    unfolding f by (simp add: example_bundle_def example_encoders_def)
  have al: "align_features whole_float_str example_bundle patient_without_protein4 =
     Inr [(''Age'', PInt 68), (''Gender'', PInt 0), (''Protein1'', PFloat (- 0.5)),
          (''Protein2'', PFloat 0.8), (''Protein3'', PFloat 0.2), (''Protein4'', PInt 0),
          (''Tumour_Stage'', PInt 2), (''Histology'', PInt 0), (''ER status'', PInt 0),
          (''PR status'', PInt 0), (''HER2 status'', PInt 1), (''Surgery_type'', PInt 0)]"
    by (simp add: example_bundle_def example_features_def example_encoders_def
        patient_without_protein4_def patient1_def align_features_def transform_def)
  have p: "predict_survival whole_float_str example_bundle patient_without_protein4 = Inr (report 210)"
    unfolding predict_survival_def al
    by (simp add: example_bundle_def standard_scaler_def linear_regression_def)
  from missing_feature_defaults_to_zero [OF i a n, of whole_float_str] f a al p
  show ?thesis by simp
qed

text \<open>
  C8. For every report, the risk indicator is the emoji of the tier in the threshold
  table: the red circle for HIGH RISK, the orange one for ELEVATED RISK, the yellow one
  for MODERATE RISK, the green one for LOWER RISK. The four differ, so indicator and
  tier determine each other.
\<close>

theorem risk_indicator_matches_tier:
  "indicator_tag (risk_color (report d)) =
     (if risk_category (report d) = ''HIGH RISK'' then ''red''
      else if risk_category (report d) = ''ELEVATED RISK'' then ''orange''
      else if risk_category (report d) = ''MODERATE RISK'' then ''yellow''
      else ''green'') \<and>
   (risk_color (report d) = red_circle) = (risk_category (report d) = ''HIGH RISK'') \<and>
   (risk_color (report d) = orange_circle) = (risk_category (report d) = ''ELEVATED RISK'') \<and>
   (risk_color (report d) = yellow_circle) = (risk_category (report d) = ''MODERATE RISK'') \<and>
   (risk_color (report d) = green_circle) = (risk_category (report d) = ''LOWER RISK'') \<and>
   distinct [red_circle, orange_circle, yellow_circle, green_circle] \<and>
   distinct (map indicator_tag [red_circle, orange_circle, yellow_circle, green_circle])"
  by (simp add: report_def risk_stratification_def indicator_tag_def
      red_circle_def orange_circle_def yellow_circle_def green_circle_def)

text \<open>
  C9. The claim that a prediction failure is answered without the detail of the
  underlying exception fails: the handler formats \<^verbatim>\<open>str(e)\<close> into the detail of the
  \<^verbatim>\<open>HTTPException\<close>. With a scaler fitted on eleven columns, the answer to the first
  example patient carries the text of the scaler's \<^verbatim>\<open>ValueError\<close>.
\<close>

theorem prediction_error_detail_counterexample:
  "predict_survival whole_float_str mismatched_bundle patient1 =
     Inl (ValueError ''X has 12 features, but StandardScaler is expecting 11 features as input.'') \<and>
   post_predict whole_float_str mismatched_bundle patient1_body =
     ServerError \<lparr>status_code = 500,
       detail = ''Prediction error: X has 12 features, but StandardScaler is expecting 11 features as input.''\<rparr>"
proof -
  have "post_predict whole_float_str mismatched_bundle patient1_body =
     ServerError \<lparr>status_code = 500,
       detail = ''Prediction error: X has 12 features, but StandardScaler is expecting 11 features as input.''\<rparr>"
    unfolding post_predict_def validate_patient1_body predict_def to_model_dict_returns
      mismatched_prediction
    by simp
  then show ?thesis by (simp add: mismatched_prediction)
qed

text \<open>
  C9, as the code has it. A request body always becomes a model dictionary. When
  \<^verbatim>\<open>predict_survival\<close> raises on it, the exception is the one the scaler or the
  regressor raised on the aligned frame, and the handler answers with status 500 and the
  detail \<^verbatim>\<open>Prediction error: \<close> followed by the text of that exception. When the
  validation of a body fails, the answer carries the reports, there is at least one, and
  the fields they are filed under are exactly the fields that break their constraint.
\<close>

theorem failure_reports:
  "(\<exists>d. to_model_dict patient_data = Inr d) \<and>
   (to_model_dict patient_data = Inr d \<and> predict_survival float_str art d = Inl e \<longrightarrow>
      predict float_str art patient_data =
        Inl \<lparr>status_code = 500, detail = ''Prediction error: '' @ exception_str e\<rparr> \<and>
      (\<exists>df. align_features float_str art d = Inr df \<and>
         (scaler art df = Inl e \<or> (\<exists>xs. scaler art df = Inr xs \<and> model art xs = Inl e)))) \<and>
   (validate_PatientData body = Inl errors \<longrightarrow>
      errors \<noteq> [] \<and> fst ` set errors = offending_fields body \<and>
      post_predict float_str art body = RequestValidationError errors)"
proof -
  have a: "\<exists>d. to_model_dict patient_data = Inr d"
    by (simp add: to_model_dict_returns)
  have b: "predict float_str art patient_data =
        Inl \<lparr>status_code = 500, detail = ''Prediction error: '' @ exception_str e\<rparr>"
    if "to_model_dict patient_data = Inr d" "predict_survival float_str art d = Inl e"
    using that by (simp add: predict_def)
  have c: "\<exists>df. align_features float_str art d = Inr df \<and>
         (scaler art df = Inl e \<or> (\<exists>xs. scaler art df = Inr xs \<and> model art xs = Inl e))"
    if "predict_survival float_str art d = Inl e"
  proof -
    obtain df where al: "align_features float_str art d = Inr df"
      using align_features_returns [of float_str art d] by blast
    from that show ?thesis
      unfolding predict_survival_after_alignment [OF al] using al
      by (auto split: sum.splits)
  qed
  have v: "errors \<noteq> [] \<and> fst ` set errors = offending_fields body \<and>
      post_predict float_str art body = RequestValidationError errors"
    if "validate_PatientData body = Inl errors"
  proof -
    have "errors = request_errors body" "request_errors body \<noteq> []"
      using that by (simp_all add: validate_PatientData_eq split: if_splits)
    then show ?thesis using that
      by (simp add: request_errors_fields post_predict_def)
  qed
  from a b c v show ?thesis by blast
qed

theorem failure_reports_witness:
  "predict whole_float_str mismatched_bundle patient1_body =
     Inl \<lparr>status_code = 500,
          detail = ''Prediction error: X has 12 features, but StandardScaler is expecting 11 features as input.''\<rparr> \<and>
   validate_PatientData (patient1_body\<lparr>Age := 17\<rparr>) = Inl [(''Age'', greater_than_equal 18)] \<and>
   offending_fields (patient1_body\<lparr>Age := 17\<rparr>) = {''Age''} \<and>
   post_predict whole_float_str mismatched_bundle (patient1_body\<lparr>Age := 17\<rparr>) =
     RequestValidationError [(''Age'', greater_than_equal 18)]"
proof -
  let ?e = "ValueError ''X has 12 features, but StandardScaler is expecting 11 features as input.''"
  obtain d where d: "to_model_dict patient1_body = Inr d"
    by (simp add: to_model_dict_returns)
  have p: "predict_survival whole_float_str mismatched_bundle d = Inl ?e"
    by (rule mismatched_prediction)
  note t = failure_reports [where patient_data = patient1_body and d = d
      and float_str = whole_float_str and art = mismatched_bundle and e = ?e
      and body = "patient1_body\<lparr>Age := 17\<rparr>" and errors = "[(''Age'', greater_than_equal 18)]"]
  from t [THEN conjunct2, THEN conjunct1, rule_format, OF conjI [OF d p]]
  have a: "predict whole_float_str mismatched_bundle patient1_body =
     Inl \<lparr>status_code = 500, detail = ''Prediction error: '' @ exception_str ?e\<rparr>"
    by (rule conjunct1)
  from t [THEN conjunct2, THEN conjunct2, rule_format, OF validate_underage_body]
  have b: "fst ` set [(''Age'', greater_than_equal 18)] = offending_fields (patient1_body\<lparr>Age := 17\<rparr>)"
    and c: "post_predict whole_float_str mismatched_bundle (patient1_body\<lparr>Age := 17\<rparr>) =
     RequestValidationError [(''Age'', greater_than_equal 18)]"
    by (rule conjunct2 [THEN conjunct1], rule conjunct2 [THEN conjunct2])
  have b': "offending_fields (patient1_body\<lparr>Age := 17\<rparr>) = {''Age''}"
    unfolding b [symmetric] by simp
  from a b' c validate_underage_body show ?thesis by simp
qed

text \<open>
  C10. For every request body, \<^verbatim>\<open>Histology\<close> and \<^verbatim>\<open>Surgery_type\<close> take any string,
  the empty one too: putting any two strings there leaves the outcome of the
  validation as it was, with the same reports or the same object carrying the two
  strings. An accepted body keeps both as they were sent, also in the dictionary handed
  to the model, and no report is ever filed under either field.
\<close>

theorem free_text_fields_unconstrained:
  "validate_PatientData (body\<lparr>Histology := h, Surgery_type := s\<rparr>) =
     (case validate_PatientData body of
        Inl errors \<Rightarrow> Inl errors
      | Inr p \<Rightarrow> Inr (p\<lparr>Histology := h, Surgery_type := s\<rparr>)) \<and>
   (\<forall>p. validate_PatientData body = Inr p \<longrightarrow>
      Histology p = Histology body \<and> Surgery_type p = Surgery_type body \<and>
      (\<exists>d. to_model_dict p = Inr d \<and>
           map_of d ''Histology'' = Some (PStr (Histology body)) \<and>
           map_of d ''Surgery_type'' = Some (PStr (Surgery_type body)))) \<and>
   (\<forall>errors. validate_PatientData body = Inl errors \<longrightarrow>
      ''Histology'' \<notin> fst ` set errors \<and> ''Surgery_type'' \<notin> fst ` set errors)"
proof -
  have e: "request_errors (body\<lparr>Histology := h, Surgery_type := s\<rparr>) = request_errors body"
    by (simp add: request_errors_def)
  have n: "normalized (body\<lparr>Histology := h, Surgery_type := s\<rparr>) =
      (normalized body)\<lparr>Histology := h, Surgery_type := s\<rparr>"
    by (simp add: normalized_def)
  have a: "validate_PatientData (body\<lparr>Histology := h, Surgery_type := s\<rparr>) =
     (case validate_PatientData body of
        Inl errors \<Rightarrow> Inl errors
      | Inr p \<Rightarrow> Inr (p\<lparr>Histology := h, Surgery_type := s\<rparr>))"
    by (simp add: validate_PatientData_eq e n)
  have b: "Histology p = Histology body \<and> Surgery_type p = Surgery_type body \<and>
      (\<exists>d. to_model_dict p = Inr d \<and>
           map_of d ''Histology'' = Some (PStr (Histology body)) \<and>
           map_of d ''Surgery_type'' = Some (PStr (Surgery_type body)))"
    if "validate_PatientData body = Inr p" for p
  proof -
    have "p = normalized body" using that by (simp add: validate_PatientData_eq split: if_splits)
    then show ?thesis by (simp add: normalized_def to_model_dict_returns)
  qed
  have c: "''Histology'' \<notin> fst ` set errors \<and> ''Surgery_type'' \<notin> fst ` set errors"
    if "validate_PatientData body = Inl errors" for errors
  proof -
    have "errors = request_errors body"
      using that by (simp add: validate_PatientData_eq split: if_splits)
    then show ?thesis using free_text_not_reported [of body] by simp
  qed
  from a b c show ?thesis by blast
qed

theorem free_text_fields_unconstrained_witness:
  "validate_PatientData (patient1_body\<lparr>Histology := [], Surgery_type := []\<rparr>) =
     Inr (patient1_body\<lparr>Histology := [], Surgery_type := []\<rparr>) \<and>
   validate_PatientData (patient1_body\<lparr>Age := 17\<rparr>) = Inl [(''Age'', greater_than_equal 18)] \<and>
   validate_PatientData (patient1_body\<lparr>Age := 17, Histology := [], Surgery_type := []\<rparr>) =
     Inl [(''Age'', greater_than_equal 18)]"
proof -
  have a: "validate_PatientData (patient1_body\<lparr>Age := 17\<rparr>) = Inl [(''Age'', greater_than_equal 18)]"
    unfolding validate_PatientData_def patient1_body_def run_validator_def check_bounds_def
      validate_status_cases
    by (simp add: validate_gender_def validate_tumour_stage_def status_spellings_def letter_defs)
  note ok = free_text_fields_unconstrained [where body = patient1_body and h = "[]" and s = "[]",
      THEN conjunct1]
  note bad = free_text_fields_unconstrained [where body = "patient1_body\<lparr>Age := 17\<rparr>"
      and h = "[]" and s = "[]", THEN conjunct1]
  have b: "validate_PatientData (patient1_body\<lparr>Histology := [], Surgery_type := []\<rparr>) =
     Inr (patient1_body\<lparr>Histology := [], Surgery_type := []\<rparr>)"
    unfolding ok validate_patient1_body by simp
  have c: "validate_PatientData (patient1_body\<lparr>Age := 17, Histology := [], Surgery_type := []\<rparr>) =
     Inl [(''Age'', greater_than_equal 18)]"
    unfolding bad a by simp
  from a b c show ?thesis by simp
qed

end
